theory Spec2Isabelle
  imports Main
begin

section \<open>JavaScript values, strings and failures\<close>

text \<open>
  The connector is one JavaScript file, \<^verbatim>\<open>src/main.js\<close>. Everything it computes with is
  either a string, a value produced by \<^verbatim>\<open>JSON.parse\<close>, or a small object of the host's
  connector SDK. Exceptions are values of \<open>js_error\<close>; a function that can throw returns
  \<open>js_error + 'a\<close> with \<open>Inl\<close> for the exception.

  Strings are lists of \<open>char\<close>, each \<open>char\<close> standing for one UTF-16 code unit below
  \<open>0x100\<close>. Numbers are only ever copied by the program, never computed with, and are
  modelled as integers. An object is the list of its own enumerable properties in the
  order \<^verbatim>\<open>Object.keys\<close> reports them, with distinct keys. The prototype of an object is
  not part of the value: the connector enumerates own keys and reads own properties only.
\<close>

datatype js_error =
    TypeError
  | SyntaxError
  | FetchError
  | ReferenceError string
  | UserError js_error

datatype jsval =
    JUndefined
  | JNull
  | JBool bool
  | JNum int
  | JStr string
  | JArr "jsval list"
  | JObj "(string \<times> jsval) list"

text \<open>\<^verbatim>\<open>String.prototype.trim\<close> removes white space and line terminators from both ends;
  these are the ones among the code units below \<open>0x100\<close>.\<close>

definition is_whitespace :: "char \<Rightarrow> bool" where
  "is_whitespace c \<longleftrightarrow>
     c \<in> set [CHR 0x09, CHR 0x0A, CHR 0x0B, CHR 0x0C, CHR 0x0D, CHR 0x20, CHR 0xA0]"

definition trim :: "string \<Rightarrow> string" where
  "trim s = rev (dropWhile is_whitespace (rev (dropWhile is_whitespace s)))"

text \<open>\<^verbatim>\<open>s.split(',')\<close>: the pieces between the separators; never the empty array.\<close>

fun split :: "char \<Rightarrow> string \<Rightarrow> string list" where
  "split sep [] = [[]]"
| "split sep (c # cs) =
     (if c = sep then [] # split sep cs
      else (c # hd (split sep cs)) # tl (split sep cs))"

text \<open>\<^verbatim>\<open>xs.join(',')\<close> on an array of strings.\<close>

fun join :: "string \<Rightarrow> string list \<Rightarrow> string" where
  "join sep [] = []"
| "join sep [x] = x"
| "join sep (x # y # ys) = x @ sep @ join sep (y # ys)"

text \<open>\<^verbatim>\<open>s.replace(/-/g, '')\<close>: every match of the one-character pattern is replaced by the
  empty string, scanning from the left.\<close>

fun replace_hyphens :: "string \<Rightarrow> string" where
  "replace_hyphens [] = []"
| "replace_hyphens (c # cs) =
     (if c = CHR ''-'' then replace_hyphens cs else c # replace_hyphens cs)"

text \<open>Array indices as property names: the decimal numeral of the index.\<close>

fun decimal :: "nat \<Rightarrow> string" where
  "decimal n =
     (if n < 10 then [char_of (48 + n)]
      else decimal (n div 10) @ [char_of (48 + n mod 10)])"

text \<open>Own enumerable properties: those of an object, the elements of an array, the
  characters of a string; numbers and booleans have none.\<close>

fun own_props :: "jsval \<Rightarrow> (string \<times> jsval) list" where
  "own_props (JObj kvs) = kvs"
| "own_props (JArr xs) = zip (map decimal [0..<length xs]) xs"
| "own_props (JStr s) = zip (map decimal [0..<length s]) (map (\<lambda>c. JStr [c]) s)"
| "own_props _ = []"

fun Object_keys :: "jsval \<Rightarrow> js_error + string list" where
  "Object_keys JUndefined = Inl TypeError"
| "Object_keys JNull = Inl TypeError"
| "Object_keys v = Inr (map fst (own_props v))"

text \<open>Reading a property, \<^verbatim>\<open>v[k]\<close> or \<^verbatim>\<open>v.k\<close>. The program reads only the names
  \<^verbatim>\<open>downloads\<close> and \<^verbatim>\<open>day\<close> and the keys \<^verbatim>\<open>Object.keys\<close> gave it, none of which is
  inherited, so a name that is not an own property reads as \<^verbatim>\<open>undefined\<close>.\<close>

fun get_prop :: "jsval \<Rightarrow> string \<Rightarrow> js_error + jsval" where
  "get_prop JUndefined k = Inl TypeError"
| "get_prop JNull k = Inl TypeError"
| "get_prop v k = Inr (case map_of (own_props v) k of None \<Rightarrow> JUndefined | Some x \<Rightarrow> x)"

text \<open>\<^verbatim>\<open>xs.map(f)\<close> where the callback can throw: the first exception ends the loop.\<close>

fun map_err :: "('a \<Rightarrow> js_error + 'b) \<Rightarrow> 'a list \<Rightarrow> js_error + 'b list" where
  "map_err f [] = Inr []"
| "map_err f (x # xs) =
     (case f x of
        Inl e \<Rightarrow> Inl e
      | Inr y \<Rightarrow> (case map_err f xs of Inl e \<Rightarrow> Inl e | Inr ys \<Rightarrow> Inr (y # ys)))"


section \<open>The host: connector SDK, HTTP and JSON\<close>

datatype fieldType = TEXT | YEAR_MONTH_DAY | NUMBER

datatype aggregationType = AggregationType_SUM

record fieldDescriptor =
  getId :: string
  getName :: string
  getType :: fieldType
  isMetric :: bool
  getAggregation :: "aggregationType option"

text \<open>\<^verbatim>\<open>UrlFetchApp.fetch\<close> and \<^verbatim>\<open>JSON.parse\<close> belong to the runtime. Both are parameters:
  the text a URL answers with (\<open>None\<close> when the fetch throws) and the value a text parses
  to (\<open>None\<close> when it is not JSON).\<close>

record host =
  UrlFetchApp_fetch :: "string \<Rightarrow> string option"
  JSON_parse :: "string \<Rightarrow> jsval option"

text \<open>Modelled from the spec: \<^verbatim>\<open>Fields.forIds\<close> of the connector SDK is not part of the
  repository. The spec has it return the "subset of field descriptors matching requested
  ids", one per requested field in the caller's order.\<close>

definition forIds :: "fieldDescriptor list \<Rightarrow> string list \<Rightarrow> fieldDescriptor list" where
  "forIds fs ids = concat (map (\<lambda>i. filter (\<lambda>f. getId f = i) fs) ids)"


section \<open>The connector\<close>

definition DEFAULT_PACKAGE :: string where
  "DEFAULT_PACKAGE = ''googleapis''"

definition getFields :: "fieldDescriptor list" where
  "getFields =
     [\<lparr>getId = ''packageName'', getName = ''Package'', getType = TEXT,
        isMetric = False, getAggregation = None\<rparr>,
      \<lparr>getId = ''day'', getName = ''Date'', getType = YEAR_MONTH_DAY,
        isMetric = False, getAggregation = None\<rparr>,
      \<lparr>getId = ''downloads'', getName = ''Downloads'', getType = NUMBER,
        isMetric = True, getAggregation = Some AggregationType_SUM\<rparr>]"

text \<open>The configuration object: its \<^verbatim>\<open>package\<close> property, a string when present. A row
  is the object \<^verbatim>\<open>{values: row}\<close> that \<^verbatim>\<open>formatData\<close> returns (the field is named
  \<open>row_values\<close> here, \<open>values\<close> being taken), and the response of \<^verbatim>\<open>getData\<close> is
  \<^verbatim>\<open>{schema, rows}\<close>.\<close>

record config =
  package :: "string option"

record row =
  row_values :: "jsval list"

record getDataResponse =
  schema :: "fieldDescriptor list"
  rows :: "row list"

subsection \<open>validateConfig\<close>

text \<open>What the object returned by \<^verbatim>\<open>validateConfig\<close> holds. \<^verbatim>\<open>a || b\<close> takes \<open>b\<close> when
  \<open>a\<close> is \<^verbatim>\<open>undefined\<close> or the empty string.\<close>

definition validateConfig :: "config option \<Rightarrow> config" where
  "validateConfig configParams =
     (let configParams = (case configParams of None \<Rightarrow> \<lparr>package = None\<rparr> | Some c \<Rightarrow> c);
          p = (case package configParams of
                 None \<Rightarrow> DEFAULT_PACKAGE
               | Some s \<Rightarrow> if s = [] then DEFAULT_PACKAGE else s);
          p = join '','' (map trim (split CHR '','' p))
      in configParams\<lparr>package := Some p\<rparr>)"




subsection \<open>The request\<close>

text \<open>The request of \<^verbatim>\<open>getData\<close>: \<^verbatim>\<open>configParams\<close> (possibly absent), \<^verbatim>\<open>dateRange\<close> and
  \<^verbatim>\<open>fields\<close> (here \<open>request_fields\<close>), the requested fields by name.\<close>

record dateRange =
  startDate :: string
  endDate :: string

record requestedField =
  name :: string

record request =
  configParams :: "config option"
  dateRange :: dateRange
  request_fields :: "requestedField list"

subsection \<open>fetchDataFromApi\<close>

definition fetchDataFromApi :: "host \<Rightarrow> request \<Rightarrow> js_error + string" where
  "fetchDataFromApi h request =
     (case configParams request of
        None \<Rightarrow> Inl TypeError
      | Some c \<Rightarrow>
          (let url = concat
                 [''https://api.npmjs.org/downloads/range/'',
                  startDate (dateRange request),
                  '':'',
                  endDate (dateRange request),
                  ''/'',
                  (case package c of None \<Rightarrow> [] | Some p \<Rightarrow> p)]
           in case UrlFetchApp_fetch h url of
                None \<Rightarrow> Inl FetchError
              | Some text \<Rightarrow> Inr text))"

subsection \<open>normalizeResponse\<close>

text \<open>The object after \<^verbatim>\<open>o = {}; o[k] = v\<close>. The assignment creates the own property
  \<open>k\<close>, except for the name \<^verbatim>\<open>__proto__\<close>: that name is an accessor inherited from
  \<^verbatim>\<open>Object.prototype\<close>, whose setter replaces the prototype of \<open>o\<close> (or does nothing, when
  \<open>v\<close> is neither an object nor \<^verbatim>\<open>null\<close>) and leaves \<open>o\<close> without any own property.\<close>

definition assign_to_empty :: "string \<Rightarrow> jsval \<Rightarrow> jsval" where
  "assign_to_empty k v = (if k = ''__proto__'' then JObj [] else JObj [(k, v)])"

definition normalizeResponse :: "host \<Rightarrow> request \<Rightarrow> string \<Rightarrow> js_error + jsval" where
  "normalizeResponse h request responseString =
     (case JSON_parse h responseString of
        None \<Rightarrow> Inl SyntaxError
      | Some response \<Rightarrow>
          (case configParams request of
             None \<Rightarrow> Inl TypeError
           | Some c \<Rightarrow>
               (case package c of
                  None \<Rightarrow> Inl TypeError
                | Some p \<Rightarrow>
                    (let package_list = split CHR '','' p
                     in if length package_list = 1
                        then Inr (assign_to_empty (package_list ! 0) response)
                        else Inr response))))"

subsection \<open>formatData\<close>

text \<open>\<^verbatim>\<open>d.replace(/-/g, '')\<close> on an arbitrary value: only a string has the method.\<close>

fun day_replace :: "jsval \<Rightarrow> js_error + jsval" where
  "day_replace (JStr s) = Inr (JStr (replace_hyphens s))"
| "day_replace _ = Inl TypeError"

definition field_value :: "string \<Rightarrow> jsval \<Rightarrow> fieldDescriptor \<Rightarrow> js_error + jsval" where
  "field_value packageName dailyDownload requestedField =
     (if getId requestedField = ''day'' then
        (case get_prop dailyDownload ''day'' of
           Inl e \<Rightarrow> Inl e
         | Inr d \<Rightarrow> day_replace d)
      else if getId requestedField = ''downloads'' then get_prop dailyDownload ''downloads''
      else if getId requestedField = ''packageName'' then Inr (JStr packageName)
      else Inr (JStr []))"

definition formatData :: "fieldDescriptor list \<Rightarrow> string \<Rightarrow> jsval \<Rightarrow> js_error + row" where
  "formatData requestedFields packageName dailyDownload =
     (case map_err (field_value packageName dailyDownload) requestedFields of
        Inl e \<Rightarrow> Inl e
      | Inr r \<Rightarrow> Inr \<lparr>row_values = r\<rparr>)"

subsection \<open>getFormattedData\<close>

text \<open>The body of the callback given to \<^verbatim>\<open>Object.keys(response).map\<close>, up to the rows of
  one package; \<^verbatim>\<open>downloadData.map\<close> exists only when \<^verbatim>\<open>downloadData\<close> is an array.\<close>

definition package_rows :: "jsval \<Rightarrow> fieldDescriptor list \<Rightarrow> string \<Rightarrow> js_error + row list" where
  "package_rows response requestedFields packageName =
     (case get_prop response packageName of
        Inl e \<Rightarrow> Inl e
      | Inr package' \<Rightarrow>
          (case get_prop package' ''downloads'' of
             Inl e \<Rightarrow> Inl e
           | Inr downloadData \<Rightarrow>
               (case downloadData of
                  JArr ds \<Rightarrow> map_err (formatData requestedFields packageName) ds
                | _ \<Rightarrow> Inl TypeError)))"

text \<open>The loop over the keys, with the variable \<^verbatim>\<open>data\<close> as accumulator.\<close>

fun getFormattedData_loop ::
  "jsval \<Rightarrow> fieldDescriptor list \<Rightarrow> string list \<Rightarrow> row list \<Rightarrow> js_error + row list" where
  "getFormattedData_loop response requestedFields [] data = Inr data"
| "getFormattedData_loop response requestedFields (packageName # ks) data =
     (case package_rows response requestedFields packageName of
        Inl e \<Rightarrow> Inl e
      | Inr formattedData \<Rightarrow>
          getFormattedData_loop response requestedFields ks (data @ formattedData))"

definition getFormattedData :: "jsval \<Rightarrow> fieldDescriptor list \<Rightarrow> js_error + row list" where
  "getFormattedData response requestedFields =
     (case Object_keys response of
        Inl e \<Rightarrow> Inl e
      | Inr ks \<Rightarrow> getFormattedData_loop response requestedFields ks [])"

subsection \<open>The Fetcher, the Normalizer and the Row Formatter over the store\<close>






subsection \<open>getData\<close>

text \<open>The three statements of the \<^verbatim>\<open>try\<close> block. Their \<^verbatim>\<open>let\<close> bindings
  (\<^verbatim>\<open>apiResponse\<close>, \<^verbatim>\<open>normalizedResponse\<close>, \<^verbatim>\<open>data\<close>) belong to the block.\<close>

definition getData_try :: "host \<Rightarrow> request \<Rightarrow> fieldDescriptor list \<Rightarrow> js_error + row list" where
  "getData_try h request requestedFields =
     (case fetchDataFromApi h request of
        Inl e \<Rightarrow> Inl e
      | Inr apiResponse \<Rightarrow>
          (case normalizeResponse h request apiResponse of
             Inl e \<Rightarrow> Inl e
           | Inr normalizedResponse \<Rightarrow> getFormattedData normalizedResponse requestedFields))"

text \<open>The identifiers that can be resolved at the \<^verbatim>\<open>return\<close> statement of \<^verbatim>\<open>getData\<close>,
  which follows the \<^verbatim>\<open>try\<close> statement: the parameter and the \<^verbatim>\<open>let\<close> of the function
  body, and the globals (those of the file and those of the runtime that the file uses).\<close>

definition getData_scope :: "string list" where
  "getData_scope = [''request'', ''requestedFields'']"

definition global_scope :: "string list" where
  "global_scope =
     [''cc'', ''DEFAULT_PACKAGE'', ''getConfig'', ''getAuthType'', ''getFields'',
      ''getSchema'', ''getData'', ''fetchDataFromApi'', ''normalizeResponse'',
      ''getFormattedData'', ''isAdminUser'', ''validateConfig'', ''formatData'',
      ''DataStudioApp'', ''UrlFetchApp'', ''JSON'', ''Object'']"

text \<open>\<^verbatim>\<open>getData\<close>: the \<^verbatim>\<open>catch\<close> clause turns whatever the block threw into the user error
  that \<^verbatim>\<open>throwException\<close> throws, with the exception as debug text. After a block that
  completed, the \<^verbatim>\<open>return\<close> statement evaluates the identifier \<^verbatim>\<open>data\<close> in the scope of
  the function body.\<close>

definition getData :: "host \<Rightarrow> request \<Rightarrow> js_error + getDataResponse" where
  "getData h request =
     (let request = request\<lparr>configParams := Some (validateConfig (configParams request))\<rparr>;
          requestedFields = forIds getFields (map name (request_fields request))
      in case getData_try h request requestedFields of
           Inl e \<Rightarrow> Inl (UserError e)
         | Inr data \<Rightarrow>
             if ''data'' \<in> set (getData_scope @ global_scope)
             then Inr \<lparr>schema = requestedFields, rows = data\<rparr>
             else Inl (ReferenceError ''data''))"


section \<open>The data model of the specification\<close>

text \<open>A normalized response as the specification types it: package names, each with its
  sequence of daily downloads, and the JavaScript value that represents it.\<close>

record dailyDownload =
  day :: string
  downloads :: int

type_synonym normalizedResponse = "(string \<times> dailyDownload list) list"

definition js_of_daily :: "dailyDownload \<Rightarrow> jsval" where
  "js_of_daily d = JObj [(''day'', JStr (day d)), (''downloads'', JNum (downloads d))]"

definition js_of_package :: "dailyDownload list \<Rightarrow> jsval" where
  "js_of_package ds = JObj [(''downloads'', JArr (map js_of_daily ds))]"

definition js_of_normalized :: "normalizedResponse \<Rightarrow> jsval" where
  "js_of_normalized n = JObj (map (\<lambda>(p, ds). (p, js_of_package ds)) n)"

text \<open>The value the specification gives a requested field of one observation (section
  4.4), and the row of one observation.\<close>

definition spec_value :: "string \<Rightarrow> dailyDownload \<Rightarrow> fieldDescriptor \<Rightarrow> jsval" where
  "spec_value p d f =
     (if getId f = ''day'' then JStr (filter (\<lambda>c. c \<noteq> CHR ''-'') (day d))
      else if getId f = ''downloads'' then JNum (downloads d)
      else if getId f = ''packageName'' then JStr p
      else JStr [])"

definition spec_row :: "fieldDescriptor list \<Rightarrow> string \<Rightarrow> dailyDownload \<Rightarrow> row" where
  "spec_row fs p d = \<lparr>row_values = map (spec_value p d) fs\<rparr>"

text \<open>A name as the resolved configuration lists it: no comma inside, no white space at
  either end. White space that surrounds a name in the input.\<close>

definition is_trimmed :: "string \<Rightarrow> bool" where
  "is_trimmed n \<longleftrightarrow>
     CHR '','' \<notin> set n \<and> (n = [] \<or> (\<not> is_whitespace (hd n) \<and> \<not> is_whitespace (last n)))"

definition is_padding :: "string \<Rightarrow> bool" where
  "is_padding w \<longleftrightarrow> list_all is_whitespace w"


section \<open>Scenario 1 of the specification\<close>

definition scenario1_text :: string where
  \<open>scenario1_text =
     ''{"downloads":[{"day":"2023-01-01","downloads":10},{"day":"2023-01-02","downloads":20}]}''\<close>

definition scenario1_json :: jsval where
  "scenario1_json =
     JObj [(''downloads'',
            JArr [JObj [(''day'', JStr ''2023-01-01''), (''downloads'', JNum 10)],
                  JObj [(''day'', JStr ''2023-01-02''), (''downloads'', JNum 20)]])]"

definition scenario1_host :: host where
  "scenario1_host =
     \<lparr>UrlFetchApp_fetch =
        (\<lambda>url. if url = ''https://api.npmjs.org/downloads/range/2023-01-01:2023-01-02/left-pad''
               then Some scenario1_text else None),
      JSON_parse = (\<lambda>s. if s = scenario1_text then Some scenario1_json else None)\<rparr>"

definition scenario1_request :: request where
  "scenario1_request =
     \<lparr>configParams = Some \<lparr>package = Some ''left-pad''\<rparr>,
      dateRange = \<lparr>startDate = ''2023-01-01'', endDate = ''2023-01-02''\<rparr>,
      request_fields = [\<lparr>name = ''packageName''\<rparr>, \<lparr>name = ''day''\<rparr>, \<lparr>name = ''downloads''\<rparr>]\<rparr>"

definition scenario1_rows :: "row list" where
  "scenario1_rows =
     [\<lparr>row_values = [JStr ''left-pad'', JStr ''20230101'', JNum 10]\<rparr>,
      \<lparr>row_values = [JStr ''left-pad'', JStr ''20230102'', JNum 20]\<rparr>]"


section \<open>Strings: splitting, joining and trimming\<close>

lemma split_not_Nil: "split sep s \<noteq> []"
  by (induction s) auto

lemma split_no_sep: "sep \<notin> set x \<Longrightarrow> split sep x = [x]"
  by (induction x) auto

lemma split_append_sep: "sep \<notin> set x \<Longrightarrow> split sep (x @ sep # s) = x # split sep s"
  by (induction x) auto

lemma split_join:
  "xs \<noteq> [] \<Longrightarrow> \<forall>x\<in>set xs. sep \<notin> set x \<Longrightarrow> split sep (join [sep] xs) = xs"
proof (induction "[sep]" xs rule: join.induct)
  case 1
  then show ?case by simp
next
  case (2 x)
  then show ?case by (simp add: split_no_sep)
next
  case (3 x y ys)
  then show ?case by (simp add: split_append_sep)
qed


lemma split_length_one: "length (split sep s) = 1 \<longleftrightarrow> sep \<notin> set s"
proof (induction s)
  case Nil
  then show ?case by simp
next
  case (Cons c cs)
  have ne: "split sep cs \<noteq> []" by (rule split_not_Nil)
  then have "length (tl (split sep cs)) = length (split sep cs) - 1" by simp
  moreover have "length (split sep cs) \<ge> 1" using ne by (cases "split sep cs") auto
  ultimately show ?case using Cons by auto
qed

lemma dropWhile_padding: "is_padding l \<Longrightarrow> dropWhile is_whitespace (l @ s) = dropWhile is_whitespace s"
  by (induction l) (auto simp: is_padding_def)

lemma trim_padding: "is_padding s \<Longrightarrow> trim s = []"
  by (auto simp: trim_def is_padding_def list_all_iff dest: set_dropWhileD)

lemma trim_pad:
  assumes "is_padding l" "is_padding r" "n = [] \<or> (\<not> is_whitespace (hd n) \<and> \<not> is_whitespace (last n))"
  shows "trim (l @ n @ r) = n"
proof (cases "n = []")
  case True
  have "is_padding (l @ r)"
    using assms(1,2) by (simp add: is_padding_def)
  then have "trim (l @ r) = []"
    by (rule trim_padding)
  then show ?thesis using True by simp
next
  case False
  with assms(3) have h: "\<not> is_whitespace (hd n)" and t: "\<not> is_whitespace (last n)" by auto
  have "dropWhile is_whitespace (l @ n @ r) = dropWhile is_whitespace (n @ r)"
    using assms(1) by (rule dropWhile_padding)
  also have "\<dots> = n @ r" using False h by (cases n) auto
  finally have 1: "dropWhile is_whitespace (l @ n @ r) = n @ r" .
  have rp: "is_padding (rev r)" using assms(2) by (simp add: is_padding_def list_all_iff)
  have "dropWhile is_whitespace (rev r @ rev n) = dropWhile is_whitespace (rev n)"
    using rp by (rule dropWhile_padding)
  also have "\<dots> = rev n" using False t by (cases "rev n") (auto simp: hd_rev)
  finally show ?thesis using 1 by (simp add: trim_def)
qed



section \<open>Rows of a well-formed response\<close>

lemma replace_hyphens_filter: "replace_hyphens s = filter (\<lambda>c. c \<noteq> CHR ''-'') s"
  by (induction s) auto

lemma map_err_ok: "(\<And>x. x \<in> set xs \<Longrightarrow> f x = Inr (g x)) \<Longrightarrow> map_err f xs = Inr (map g xs)"
  by (induction xs) auto

lemma field_value_daily: "field_value p (js_of_daily d) f = Inr (spec_value p d f)"
  by (simp add: field_value_def js_of_daily_def spec_value_def replace_hyphens_filter)

lemma formatData_daily: "formatData fs p (js_of_daily d) = Inr (spec_row fs p d)"
  by (simp add: formatData_def spec_row_def map_err_ok[where g = "spec_value p d"] field_value_daily)

lemma map_of_normalized:
  "map_of (map (\<lambda>(p, ds). (p, js_of_package ds)) n) k = map_option js_of_package (map_of n k)"
  by (induction n) auto

lemma package_rows_normalized:
  assumes "map_of n p = Some ds"
  shows "package_rows (js_of_normalized n) fs p = Inr (map (spec_row fs p) ds)"
proof -
  have "map_err (formatData fs p) (map js_of_daily ds) = Inr (map (spec_row fs p) ds)"
    by (induction ds) (auto simp: formatData_daily)
  moreover have "get_prop (js_of_normalized n) p = Inr (js_of_package ds)"
    using assms by (simp add: js_of_normalized_def map_of_normalized)
  moreover have "get_prop (js_of_package ds) ''downloads'' = Inr (JArr (map js_of_daily ds))"
    by (simp add: js_of_package_def)
  ultimately show ?thesis
    by (simp add: package_rows_def)
qed

lemma getFormattedData_loop_ok:
  "(\<And>k. k \<in> set ks \<Longrightarrow> package_rows r fs k = Inr (g k)) \<Longrightarrow>
   getFormattedData_loop r fs ks data = Inr (data @ concat (map g ks))"
  by (induction ks arbitrary: data) auto


section \<open>Resolving a configuration\<close>

lemma comma_not_whitespace: "\<not> is_whitespace CHR '',''"
  by (simp add: is_whitespace_def)

lemma padding_no_comma: "is_padding w \<Longrightarrow> CHR '','' \<notin> set w"
  using comma_not_whitespace by (auto simp: is_padding_def list_all_iff)

lemma validateConfig_package:
  "package (validateConfig cfg) =
     Some (join '','' (map trim (split CHR '',''
       (case cfg of
          None \<Rightarrow> DEFAULT_PACKAGE
        | Some c \<Rightarrow> (case package c of
                      None \<Rightarrow> DEFAULT_PACKAGE
                    | Some s \<Rightarrow> if s = [] then DEFAULT_PACKAGE else s)))))"
  by (simp add: validateConfig_def Let_def split: option.splits)


lemma resolve_padded:
  assumes ne: "ts \<noteq> []"
    and ok: "\<And>l n r. (l, n, r) \<in> set ts \<Longrightarrow> is_padding l \<and> is_trimmed n \<and> is_padding r"
  shows "join '','' (map trim (split CHR '','' (join '','' (map (\<lambda>(l, n, r). l @ n @ r) ts))))
         = join '','' (map (\<lambda>(l, n, r). n) ts)"
proof -
  let ?padded = "map (\<lambda>(l, n, r). l @ n @ r) ts"
  have "\<forall>x\<in>set ?padded. CHR '','' \<notin> set x"
    using ok by (auto simp: is_trimmed_def dest: padding_no_comma)
  moreover have "?padded \<noteq> []" using ne by simp
  ultimately have e1: "split CHR '','' (join [CHR '',''] ?padded) = ?padded"
    by (rule split_join[rotated])
  have "\<And>t. t \<in> set ts \<Longrightarrow> trim ((\<lambda>(l, n, r). l @ n @ r) t) = (\<lambda>(l, n, r). n) t"
  proof -
    fix t assume t: "t \<in> set ts"
    obtain l n r where lnr: "t = (l, n, r)" by (cases t)
    with t ok have "is_padding l" "is_trimmed n" "is_padding r" by blast+
    then have "trim (l @ n @ r) = n"
      by (intro trim_pad) (auto simp: is_trimmed_def)
    then show "trim ((\<lambda>(l, n, r). l @ n @ r) t) = (\<lambda>(l, n, r). n) t"
      by (simp add: lnr)
  qed
  then have e2: "map trim ?padded = map (\<lambda>(l, n, r). n) ts"
    by (simp only: map_map comp_def map_eq_conv) blast
  show ?thesis by (simp only: e1 e2)
qed


section \<open>What no call of getData can do\<close>

text \<open>Whatever the host answers, \<^verbatim>\<open>getData\<close> does not return a response: either the
  \<^verbatim>\<open>try\<close> block throws, or the \<^verbatim>\<open>return\<close> statement does.\<close>

lemma getData_never_returns: "getData h request \<noteq> Inr r"
  by (simp add: getData_def Let_def getData_scope_def global_scope_def split: sum.splits)

section \<open>The package list and the keys of a normalized response\<close>

lemma split_singleton: "length (split sep s) = Suc 0 \<Longrightarrow> split sep s = [s]"
  using split_length_one[of sep s] by (simp add: split_no_sep)

lemma split_length_pos: "1 \<le> length (split sep s)"
  using split_not_Nil[of sep s] by (cases "split sep s") auto


lemma Object_keys_normalized: "Object_keys (js_of_normalized n) = Inr (map fst n)"
  by (simp add: js_of_normalized_def comp_def case_prod_unfold)

lemma concat_rows_distinct:
  assumes "distinct (map fst n)"
  shows "concat (map (\<lambda>k. g k (the (map_of n k))) (map fst n)) = concat (map (\<lambda>(p, ds). g p ds) n)"
proof -
  have "map (\<lambda>k. g k (the (map_of n k))) (map fst n) = map (\<lambda>(p, ds). g p ds) n"
    using assms by (auto simp: map_of_eq_Some_iff[OF assms])
  then show ?thesis by (rule arg_cong[of _ _ concat])
qed


section \<open>The claims\<close>

text \<open>
  Claim C1. Scenario 1 of the specification: for the configuration \<^verbatim>\<open>{package: "left-pad"}\<close>,
  the date range 2023-01-01 to 2023-01-02, the upstream answer with 10 and 20 downloads on
  the two days and the requested fields packageName, day, downloads, \<^verbatim>\<open>getData\<close> should
  return the two rows of the scenario with the schema of the requested fields. The
  \<^verbatim>\<open>try\<close> block does compute exactly these rows, and the requested schema is the whole
  schema; but the block binds them with \<^verbatim>\<open>let data\<close>, so at the \<^verbatim>\<open>return\<close> statement
  the identifier \<^verbatim>\<open>data\<close> is unbound and the call ends in a ReferenceError instead of
  returning.
\<close>

theorem getData_scenario1:
  "getData scenario1_host scenario1_request = Inl (ReferenceError ''data'') \<and>
   getData_try scenario1_host
     (scenario1_request\<lparr>configParams := Some (validateConfig (configParams scenario1_request))\<rparr>)
     (forIds getFields (map name (request_fields scenario1_request))) = Inr scenario1_rows \<and>
   forIds getFields (map name (request_fields scenario1_request)) = getFields"
  by code_simp




text \<open>
  Claim C7. A package value that lists names with extraneous white space around them
  resolves to the comma-joined list of the names alone. The value is given by its
  elements: each a name \<open>n\<close> (no comma inside, no white space at either end) between
  a run of white space \<open>l\<close> and a run of white space \<open>r\<close>. The value is not the empty
  string, which would be replaced by the default before the list is split.
\<close>

theorem validateConfig_trims:
  assumes "ts \<noteq> []"
    and "\<forall>(l, n, r)\<in>set ts. is_padding l \<and> is_trimmed n \<and> is_padding r"
    and "join '','' (map (\<lambda>(l, n, r). l @ n @ r) ts) \<noteq> []"
  shows "package (validateConfig (Some \<lparr>package = Some (join '','' (map (\<lambda>(l, n, r). l @ n @ r) ts))\<rparr>))
         = Some (join '','' (map (\<lambda>(l, n, r). n) ts))"
proof -
  have "join '','' (map trim (split CHR '','' (join '','' (map (\<lambda>(l, n, r). l @ n @ r) ts))))
         = join '','' (map (\<lambda>(l, n, r). n) ts)"
    using assms(1,2) by (intro resolve_padded) auto
  then show ?thesis using assms(3) by (simp add: validateConfig_package)
qed

theorem validateConfig_trims_witness:
  "package (validateConfig (Some \<lparr>package = Some '' a , b ,c ''\<rparr>)) = Some ''a,b,c''"
proof -
  let ?ts = "[('' '', ''a'', '' ''), ('' '', ''b'', '' ''), ('''', ''c'', '' '')]"
  have ws: "is_whitespace CHR '' ''" "\<not> is_whitespace CHR ''a''" "\<not> is_whitespace CHR ''b''"
    "\<not> is_whitespace CHR ''c''"
    by (simp_all add: is_whitespace_def)
  have 1: "?ts \<noteq> []" by simp
  have 2: "\<forall>(l, n, r)\<in>set ?ts. is_padding l \<and> is_trimmed n \<and> is_padding r"
    using ws by (simp add: is_padding_def is_trimmed_def)
  have 3: "join '','' (map (\<lambda>(l, n, r). l @ n @ r) ?ts) \<noteq> []" by simp
  show ?thesis using validateConfig_trims[OF 1 2 3] by simp
qed




text \<open>
  Claim C2. When the fetch throws, or the text it returns is not JSON, \<^verbatim>\<open>getData\<close> ends
  in the one user error that the \<^verbatim>\<open>catch\<close> clause raises, the exception kept as its debug
  text only; being an exception, it carries no rows. The request in the premises is the
  one \<^verbatim>\<open>getData\<close> works on, with the resolved configuration.
\<close>

theorem getData_failure:
  "(fetchDataFromApi h (request\<lparr>configParams := Some (validateConfig (configParams request))\<rparr>)
      = Inl e \<longrightarrow> getData h request = Inl (UserError e)) \<and>
   (fetchDataFromApi h (request\<lparr>configParams := Some (validateConfig (configParams request))\<rparr>)
      = Inr text \<and> JSON_parse h text = None \<longrightarrow> getData h request = Inl (UserError SyntaxError))"
  by (simp add: getData_def Let_def getData_try_def normalizeResponse_def)

theorem getData_failure_witness:
  "getData \<lparr>UrlFetchApp_fetch = (\<lambda>url. None), JSON_parse = (\<lambda>s. None)\<rparr> scenario1_request
     = Inl (UserError FetchError) \<and>
   getData \<lparr>UrlFetchApp_fetch = (\<lambda>url. Some ''<html>''), JSON_parse = (\<lambda>s. None)\<rparr> scenario1_request
     = Inl (UserError SyntaxError)"
proof -
  let ?r = "scenario1_request\<lparr>configParams := Some (validateConfig (configParams scenario1_request))\<rparr>"
  let ?h1 = "\<lparr>UrlFetchApp_fetch = (\<lambda>url. None), JSON_parse = (\<lambda>s. None)\<rparr>"
  let ?h2 = "\<lparr>UrlFetchApp_fetch = (\<lambda>url. Some ''<html>''), JSON_parse = (\<lambda>s. None)\<rparr>"
  have 1: "fetchDataFromApi ?h1 ?r = Inl FetchError"
    by (simp add: fetchDataFromApi_def)
  have 2: "fetchDataFromApi ?h2 ?r = Inr ''<html>'' \<and> JSON_parse ?h2 ''<html>'' = None"
    by (simp add: fetchDataFromApi_def)
  show ?thesis
    using getData_failure[of ?h1 scenario1_request FetchError] 1
      getData_failure[of ?h2 scenario1_request _ "''<html>''"] 2
    by simp
qed

text \<open>
  Claim C3. The normalizer decides by the number of entries of the comma-split package
  of the request, whatever the parsed response is. The list is never empty. With more
  than one entry the result is the parsed response itself. With exactly one entry, which
  is then the whole package string, the result is the object whose sole key is that name
  and whose value is the parsed response, as the function's comment promises ("Contains
  package names as keys"), for every name but one: for the package \<^verbatim>\<open>__proto__\<close> the
  assignment \<^verbatim>\<open>mapped_response[package_list[0]] = response\<close> creates no key, and the
  result is an object without keys.
\<close>

theorem normalizeResponse_by_package_count:
  assumes "JSON_parse h responseString = Some response"
    and "configParams request = Some \<lparr>package = Some p\<rparr>"
  shows "1 \<le> length (split CHR '','' p) \<and>
         (length (split CHR '','' p) = 1 \<and> p \<noteq> ''__proto__'' \<longrightarrow>
            split CHR '','' p = [p] \<and>
            normalizeResponse h request responseString = Inr (JObj [(p, response)])) \<and>
         (1 < length (split CHR '','' p) \<longrightarrow>
            normalizeResponse h request responseString = Inr response) \<and>
         (p = ''__proto__'' \<longrightarrow>
            length (split CHR '','' p) = 1 \<and>
            normalizeResponse h request responseString = Inr (JObj []))"
proof -
  have one: "length (split CHR '','' p) = 1 \<Longrightarrow> split CHR '','' p = [p]"
    by (simp add: split_singleton)
  have proto: "split CHR '','' ''__proto__'' = [''__proto__'']"
    by (simp add: split_no_sep)
  show ?thesis
    using assms split_length_pos[of "CHR '',''" p] one proto
    by (auto simp: normalizeResponse_def assign_to_empty_def Let_def)
qed

theorem normalizeResponse_by_package_count_witness:
  "normalizeResponse scenario1_host
     \<lparr>configParams = Some \<lparr>package = Some ''__proto__''\<rparr>,
      dateRange = \<lparr>startDate = ''2023-01-01'', endDate = ''2023-01-02''\<rparr>,
      request_fields = []\<rparr> scenario1_text = Inr (JObj []) \<and>
   getFormattedData (JObj []) getFields = Inr [] \<and>
   normalizeResponse scenario1_host
     \<lparr>configParams = Some \<lparr>package = Some ''left-pad''\<rparr>,
      dateRange = \<lparr>startDate = ''2023-01-01'', endDate = ''2023-01-02''\<rparr>,
      request_fields = []\<rparr> scenario1_text = Inr (JObj [(''left-pad'', scenario1_json)]) \<and>
   normalizeResponse scenario1_host
     \<lparr>configParams = Some \<lparr>package = Some ''a,b''\<rparr>,
      dateRange = \<lparr>startDate = ''2023-01-01'', endDate = ''2023-01-02''\<rparr>,
      request_fields = []\<rparr> scenario1_text = Inr scenario1_json"
proof -
  have p: "JSON_parse scenario1_host scenario1_text = Some scenario1_json"
    by (simp add: scenario1_host_def)
  have l1: "length (split CHR '','' ''left-pad'') = 1" by simp
  have l2: "1 < length (split CHR '','' ''a,b'')" by simp
  have rows: "getFormattedData (JObj []) getFields = Inr []"
    by (simp add: getFormattedData_def)
  show ?thesis
    using normalizeResponse_by_package_count[OF p, of
        "\<lparr>configParams = Some \<lparr>package = Some ''__proto__''\<rparr>,
          dateRange = \<lparr>startDate = ''2023-01-01'', endDate = ''2023-01-02''\<rparr>,
          request_fields = []\<rparr>" "''__proto__''"]
      normalizeResponse_by_package_count[OF p, of
        "\<lparr>configParams = Some \<lparr>package = Some ''left-pad''\<rparr>,
          dateRange = \<lparr>startDate = ''2023-01-01'', endDate = ''2023-01-02''\<rparr>,
          request_fields = []\<rparr>" "''left-pad''"]
      normalizeResponse_by_package_count[OF p, of
        "\<lparr>configParams = Some \<lparr>package = Some ''a,b''\<rparr>,
          dateRange = \<lparr>startDate = ''2023-01-01'', endDate = ''2023-01-02''\<rparr>,
          request_fields = []\<rparr>" "''a,b''"] l1 l2 rows
    by simp
qed

text \<open>
  Claim C4. For a normalized response (package names, unique, each with its sequence of
  daily downloads) the row formatter returns one row per package and day: the rows of the
  packages in the order of the mapping, within a package in the order of its days, so
  that their number is the sum of the packages' day counts.
\<close>

theorem getFormattedData_rows:
  assumes "distinct (map fst n)"
  shows "\<exists>rs. getFormattedData (js_of_normalized n) fs = Inr rs \<and>
           rs = concat (map (\<lambda>(p, ds). map (spec_row fs p) ds) n) \<and>
           length rs = sum_list (map (\<lambda>(p, ds). length ds) n)"
proof -
  let ?g = "\<lambda>k. map (spec_row fs k) (the (map_of n k))"
  have "\<And>k. k \<in> set (map fst n) \<Longrightarrow> package_rows (js_of_normalized n) fs k = Inr (?g k)"
  proof -
    fix k assume "k \<in> set (map fst n)"
    then obtain ds where "map_of n k = Some ds"
      by (metis map_of_eq_None_iff not_Some_eq set_map)
    then show "package_rows (js_of_normalized n) fs k = Inr (?g k)"
      by (simp add: package_rows_normalized)
  qed
  then have "getFormattedData_loop (js_of_normalized n) fs (map fst n) []
               = Inr ([] @ concat (map ?g (map fst n)))"
    by (rule getFormattedData_loop_ok)
  moreover have "concat (map ?g (map fst n)) = concat (map (\<lambda>(p, ds). map (spec_row fs p) ds) n)"
    using assms by (rule concat_rows_distinct[where g = "\<lambda>p ds. map (spec_row fs p) ds"])
  ultimately have eq: "getFormattedData (js_of_normalized n) fs
                   = Inr (concat (map (\<lambda>(p, ds). map (spec_row fs p) ds) n))"
    by (simp add: getFormattedData_def Object_keys_normalized)
  have "length (concat (map (\<lambda>(p, ds). map (spec_row fs p) ds) n))
          = sum_list (map (\<lambda>(p, ds). length ds) n)"
    by (induction n) (auto simp: case_prod_unfold)
  with eq show ?thesis by simp
qed

theorem getFormattedData_rows_witness:
  "getFormattedData
     (js_of_normalized
        [(''a'', [\<lparr>day = ''2023-01-01'', downloads = 5\<rparr>, \<lparr>day = ''2023-01-02'', downloads = 6\<rparr>]),
         (''b'', [\<lparr>day = ''2023-01-01'', downloads = 7\<rparr>])])
     (forIds getFields [''packageName'', ''downloads''])
   = Inr [\<lparr>row_values = [JStr ''a'', JNum 5]\<rparr>, \<lparr>row_values = [JStr ''a'', JNum 6]\<rparr>,
          \<lparr>row_values = [JStr ''b'', JNum 7]\<rparr>]"
proof -
  let ?n = "[(''a'', [\<lparr>day = ''2023-01-01'', downloads = 5\<rparr>, \<lparr>day = ''2023-01-02'', downloads = 6\<rparr>]),
             (''b'', [\<lparr>day = ''2023-01-01'', downloads = 7\<rparr>])]"
  have d: "distinct (map fst ?n)" by simp
  have f: "forIds getFields [''packageName'', ''downloads'']
             = [getFields ! 0, getFields ! 2]"
    by (simp add: forIds_def getFields_def)
  show ?thesis
    using getFormattedData_rows[OF d, of "forIds getFields [''packageName'', ''downloads'']"]
    unfolding f by (simp add: getFields_def spec_row_def spec_value_def)
qed

text \<open>
  Claim C5. For every list of requested fields and every observation, the formatted row
  has one value per requested field, in the order of the fields: the value the
  specification gives the field. A field whose id is none of \<^verbatim>\<open>day\<close>, \<^verbatim>\<open>downloads\<close>,
  \<^verbatim>\<open>packageName\<close> gets the empty string; such a field never throws, whatever value
  stands for the observation.
\<close>

theorem formatData_row:
  "(\<exists>r. formatData fs p (js_of_daily d) = Inr r \<and>
        length (row_values r) = length fs \<and>
        (\<forall>i<length fs. row_values r ! i = spec_value p d (fs ! i)) \<and>
        (\<forall>i<length fs. getId (fs ! i) \<notin> {''day'', ''downloads'', ''packageName''} \<longrightarrow>
                          row_values r ! i = JStr [])) \<and>
   (getId f \<notin> {''day'', ''downloads'', ''packageName''} \<longrightarrow> field_value p v f = Inr (JStr []))"
  by (simp add: formatData_daily spec_row_def spec_value_def field_value_def)

theorem formatData_row_witness:
  "\<exists>r. formatData
         [\<lparr>getId = ''downloads'', getName = ''Downloads'', getType = NUMBER, isMetric = True,
            getAggregation = Some AggregationType_SUM\<rparr>,
          \<lparr>getId = ''version'', getName = ''Version'', getType = TEXT, isMetric = False,
            getAggregation = None\<rparr>,
          \<lparr>getId = ''packageName'', getName = ''Package'', getType = TEXT, isMetric = False,
            getAggregation = None\<rparr>]
         ''left-pad'' (js_of_daily \<lparr>day = ''2023-01-05'', downloads = 3\<rparr>) = Inr r \<and>
       length (row_values r) = 3 \<and>
       row_values r ! 0 = JNum 3 \<and> row_values r ! 1 = JStr [] \<and>
       row_values r ! 2 = JStr ''left-pad''"
proof -
  let ?fs = "[\<lparr>getId = ''downloads'', getName = ''Downloads'', getType = NUMBER, isMetric = True,
        getAggregation = Some AggregationType_SUM\<rparr>,
      \<lparr>getId = ''version'', getName = ''Version'', getType = TEXT, isMetric = False,
        getAggregation = None\<rparr>,
      \<lparr>getId = ''packageName'', getName = ''Package'', getType = TEXT, isMetric = False,
        getAggregation = None\<rparr>]"
  let ?d = "\<lparr>day = ''2023-01-05'', downloads = 3\<rparr>"
  obtain r where r: "formatData ?fs ''left-pad'' (js_of_daily ?d) = Inr r"
    and len: "length (row_values r) = length ?fs"
    and val: "\<forall>i<length ?fs. row_values r ! i = spec_value ''left-pad'' ?d (?fs ! i)"
    and unknown: "\<forall>i<length ?fs. getId (?fs ! i) \<notin> {''day'', ''downloads'', ''packageName''} \<longrightarrow>
                    row_values r ! i = JStr []"
    using formatData_row[of ?fs "''left-pad''" ?d] by blast
  have v0: "row_values r ! 0 = JNum 3" and v2: "row_values r ! 2 = JStr ''left-pad''"
    using val by (simp_all add: spec_value_def)
  have v1: "row_values r ! 1 = JStr []"
    using unknown by simp
  have "length (row_values r) = 3" using len by simp
  with r v0 v1 v2 show ?thesis by (intro exI[of _ r]) simp
qed

text \<open>
  Claim C8. Where the \<^verbatim>\<open>day\<close> field is requested, the row holds the day string of the
  entry with every \<^verbatim>\<open>-\<close> removed and all other characters kept in order.
\<close>

theorem formatData_day:
  assumes "i < length fs" and "getId (fs ! i) = ''day''"
  shows "\<exists>r. formatData fs p (js_of_daily d) = Inr r \<and>
           row_values r ! i = JStr (filter (\<lambda>c. c \<noteq> CHR ''-'') (day d)) \<and>
           CHR ''-'' \<notin> set (filter (\<lambda>c. c \<noteq> CHR ''-'') (day d))"
  using assms by (simp add: formatData_daily spec_row_def spec_value_def)

theorem formatData_day_witness:
  "\<exists>r. formatData getFields ''left-pad'' (js_of_daily \<lparr>day = ''2023-01-05'', downloads = 3\<rparr>) = Inr r \<and>
       row_values r ! 1 = JStr ''20230105''"
proof -
  have 1: "1 < length getFields" and 2: "getId (getFields ! 1) = ''day''"
    by (simp_all add: getFields_def)
  show ?thesis
    using formatData_day[OF 1 2, of "''left-pad''" "\<lparr>day = ''2023-01-05'', downloads = 3\<rparr>"]
    by simp
qed




end
